theory Spec2Isabelle
  imports Main "HOL-Library.Sublist" "HOL-Library.AList"
begin

section \<open>Python values handled by \<^verbatim>\<open>spark_room.py\<close>\<close>

text \<open>
  The module is dynamically typed: response bodies are whatever \<^verbatim>\<open>json.loads\<close>
  produced, a diagnostic string, or the exception object of a failed POST. \<open>pyval\<close>
  covers these. JSON numbers are integers here (no float reaches a decision of the
  module other than through truthiness); a dict is an association list in insertion
  order, its keys being strings.
\<close>

datatype pyval =
    PNone
  | PBool bool
  | PInt int
  | PStr string
  | PList "pyval list"
  | PDict "(string \<times> pyval) list"
  | PExc string

text \<open>The uncaught exceptions the module's own expressions can raise.\<close>

datatype fault = KeyError | TypeError

text \<open>Truth value of an object, as \<^verbatim>\<open>if x:\<close> and \<^verbatim>\<open>not x\<close> test it.\<close>

fun truthy :: "pyval \<Rightarrow> bool" where
  "truthy PNone = False"
| "truthy (PBool b) = b"
| "truthy (PInt n) = (n \<noteq> 0)"
| "truthy (PStr s) = (s \<noteq> [])"
| "truthy (PList xs) = (xs \<noteq> [])"
| "truthy (PDict kvs) = (kvs \<noteq> [])"
| "truthy (PExc e) = True"

text \<open>
  \<^verbatim>\<open>obj[key]\<close> with a string key: a dict looks the key up (KeyError when missing);
  a list, a string or an exception wants an integer index, the other objects have no
  item access (TypeError).
\<close>

fun py_getitem :: "pyval \<Rightarrow> string \<Rightarrow> fault + pyval" where
  "py_getitem (PDict kvs) key =
     (case map_of kvs key of None \<Rightarrow> Inl KeyError | Some v \<Rightarrow> Inr v)"
| "py_getitem _ key = Inl TypeError"

text \<open>\<^verbatim>\<open>for x in obj\<close>: the elements of a list, the keys of a dict, the characters of a string.\<close>

fun py_iter :: "pyval \<Rightarrow> fault + pyval list" where
  "py_iter (PList xs) = Inr xs"
| "py_iter (PDict kvs) = Inr (map (\<lambda>kv. PStr (fst kv)) kvs)"
| "py_iter (PStr s) = Inr (map (\<lambda>c. PStr [c]) s)"
| "py_iter _ = Inl TypeError"

text \<open>\<^verbatim>\<open>t in s\<close> on two strings: \<open>t\<close> occurs in \<open>s\<close> as a contiguous run.\<close>

fun starts_with :: "string \<Rightarrow> string \<Rightarrow> bool" where
  "starts_with [] s = True"
| "starts_with (c # t) [] = False"
| "starts_with (c # t) (d # s) = (c = d \<and> starts_with t s)"

fun str_contains :: "string \<Rightarrow> string \<Rightarrow> bool" where
  "str_contains t [] = (t = [])"
| "str_contains t (d # s) = (starts_with t (d # s) \<or> str_contains t s)"

text \<open>
  \<^verbatim>\<open>title in obj\<close> for a string \<open>title\<close>: substring test on a string, membership
  on a list, key membership on a dict, TypeError on an object that is not a container.
\<close>

fun py_in :: "string \<Rightarrow> pyval \<Rightarrow> fault + bool" where
  "py_in title (PStr s) = Inr (str_contains title s)"
| "py_in title (PList xs) = Inr (PStr title \<in> set xs)"
| "py_in title (PDict kvs) = Inr (title \<in> fst ` set kvs)"
| "py_in title _ = Inl TypeError"

text \<open>\<^verbatim>\<open>"%s" % n\<close> for an integer: its decimal digits, with a minus sign when negative.\<close>

fun str_nat :: "nat \<Rightarrow> string" where
  "str_nat n =
     (if n < 10 then [char_of (48 + n)]
      else str_nat (n div 10) @ [char_of (48 + n mod 10)])"

definition str_int :: "int \<Rightarrow> string" where
  "str_int i = (if i < 0 then CHR ''-'' # str_nat (nat (- i)) else str_nat (nat i))"

section \<open>The network\<close>

datatype verb = GET | POST

text \<open>
  What the module hands to \<^verbatim>\<open>requests.get\<close> / \<^verbatim>\<open>requests.post\<close>. \<open>data\<close> is the
  object given to \<^verbatim>\<open>json.dumps\<close> (absent for a GET).
\<close>

record request =
  verb :: verb
  uri :: string
  data :: "pyval option"
  headers :: "(string \<times> string) list"
  verify :: bool

text \<open>
  What comes back: \<^verbatim>\<open>requests.ConnectionError\<close> (the only exception the module
  catches around a request), or a response with its \<^verbatim>\<open>status_code\<close> and the outcome of
  \<^verbatim>\<open>json.loads(r.content)\<close>: \<open>Some v\<close> for the parsed value, \<open>None\<close> when it raises
  ValueError.
\<close>

datatype reply = ConnectionError string | Response int "pyval option"

text \<open>
  The environment of a run: \<open>net\<close> answers the latest request given all requests sent so
  far (so a server may answer differently over time), \<open>responses\<close> is the table
  \<^verbatim>\<open>httplib.responses\<close> of reason phrases, which has no entry for some status codes.
\<close>

record env =
  net :: "request list \<Rightarrow> reply"
  responses :: "int \<Rightarrow> string option"

section \<open>The Connection class\<close>

text \<open>
  The attributes set by \<^verbatim>\<open>__init__\<close>, and \<open>wire\<close>: the requests issued so far, oldest
  first. \<open>wire\<close> is not an attribute of the Python object; it records the effect of the
  object on the network so that the posted bodies can be observed.
\<close>

record connection =
  debug :: pyval
  token :: string
  HEADER :: "(string \<times> string) list"
  server :: string
  rooms :: pyval
  code :: int
  changed :: bool
  response :: pyval
  wire :: "request list"

definition Connection :: "pyval \<Rightarrow> string \<Rightarrow> connection" where
  "Connection dbg tok =
     \<lparr> debug = dbg,
       token = ''Bearer '' @ tok,
       HEADER = [(''Content-Type'', ''application/json''),
                 (''Authorization'', ''Bearer '' @ tok)],
       server = ''https://api.ciscospark.com'',
       rooms = PNone,
       code = 0,
       changed = False,
       response = PNone,
       wire = [] \<rparr>"

definition get_changed_flag :: "connection \<Rightarrow> bool" where
  "get_changed_flag self = changed self"

text \<open>
  A method returns its value or the uncaught exception, and the object as the call left it.
\<close>

type_synonym 'a outcome = "(fault + 'a) \<times> connection"

text \<open>
  The first component of what \<^verbatim>\<open>genericPOST\<close> returns: \<^verbatim>\<open>False\<close> after a
  ConnectionError, \<^verbatim>\<open>r.status_code\<close> otherwise. \<^verbatim>\<open>bool\<close> is a subclass of \<^verbatim>\<open>int\<close>:
  in a comparison or a sum \<^verbatim>\<open>False\<close> counts as 0.
\<close>

datatype rc = PyFalse | Status int

fun rc_int :: "rc \<Rightarrow> int" where
  "rc_int PyFalse = 0"
| "rc_int (Status n) = n"

fun rc_val :: "rc \<Rightarrow> pyval" where
  "rc_val PyFalse = PBool False"
| "rc_val (Status n) = PInt n"

definition rc_eq :: "rc \<Rightarrow> int \<Rightarrow> bool" where
  "rc_eq r k = (rc_int r = k)"

definition genericPOST :: "env \<Rightarrow> string \<Rightarrow> pyval \<Rightarrow> connection \<Rightarrow> (rc \<times> pyval) outcome" where
  "genericPOST e URI body self =
     (let URI' = server self @ URI;
          req = \<lparr> verb = POST, uri = URI', data = Some body,
                  headers = HEADER self, verify = False \<rparr>;
          self1 = self\<lparr>wire := wire self @ [req]\<rparr>
      in case net e (wire self1) of
           ConnectionError err \<Rightarrow> (Inr (PyFalse, PExc err), self1)
         | Response status_code content \<Rightarrow>
             (case content of
                Some v \<Rightarrow> (Inr (Status status_code, v), self1\<lparr>response := v\<rparr>)
              | None \<Rightarrow>
                  (case responses e status_code of
                     None \<Rightarrow> (Inl KeyError, self1)
                   | Some reason \<Rightarrow>
                       (let d = PStr (''ValueError: '' @ str_int status_code @ '' '' @ reason)
                        in (Inr (Status status_code, d), self1\<lparr>response := d\<rparr>)))))"

definition list_rooms :: "env \<Rightarrow> connection \<Rightarrow> (rc \<times> pyval) outcome" where
  "list_rooms e self =
     (let URI = server self @ ''/hydra/api/v1/rooms'';
          req = \<lparr> verb = GET, uri = URI, data = None,
                  headers = HEADER self, verify = False \<rparr>;
          self1 = self\<lparr>wire := wire self @ [req]\<rparr>
      in case net e (wire self1) of
           ConnectionError err \<Rightarrow> (Inr (Status 404, PNone), self1)
         | Response status_code content \<Rightarrow>
             (case content of
                Some v \<Rightarrow>
                  (case py_getitem v ''items'' of
                     Inl f \<Rightarrow> (Inl f, self1)
                   | Inr items \<Rightarrow> (Inr (Status status_code, items), self1\<lparr>rooms := items\<rparr>))
              | None \<Rightarrow> (Inr (Status status_code, PNone), self1\<lparr>rooms := PNone\<rparr>)))"

text \<open>The \<^verbatim>\<open>for\<close> loop of \<^verbatim>\<open>get_room_id\<close> over the elements still to visit.\<close>

fun get_room_id_loop :: "string \<Rightarrow> pyval list \<Rightarrow> fault + pyval" where
  "get_room_id_loop title [] = Inr PNone"
| "get_room_id_loop title (room # rest) =
     (case py_getitem room ''title'' of
        Inl f \<Rightarrow> Inl f
      | Inr t \<Rightarrow>
          (case py_in title t of
             Inl f \<Rightarrow> Inl f
           | Inr hit \<Rightarrow>
               if hit then py_getitem room ''id'' else get_room_id_loop title rest))"

definition get_room_id :: "string \<Rightarrow> connection \<Rightarrow> pyval outcome" where
  "get_room_id title self =
     (if truthy (rooms self) then
        (case py_iter (rooms self) of
           Inl f \<Rightarrow> (Inl f, self)
         | Inr elems \<Rightarrow> (get_room_id_loop title elems, self))
      else (Inr PNone, self))"

definition set_returncode :: "rc \<Rightarrow> connection \<Rightarrow> pyval \<times> connection" where
  "set_returncode r self =
     (if rc_eq r 200 then (rc_val r, self\<lparr>changed := True\<rparr>)
      else (PNone, self\<lparr>code := code self + rc_int r\<rparr>))"

definition send_message ::
  "env \<Rightarrow> pyval \<Rightarrow> pyval \<Rightarrow> pyval \<Rightarrow> connection \<Rightarrow> (pyval \<times> pyval) outcome" where
  "send_message e room_id msg filename self =
     (let payload = [(''roomId'', room_id)];
          payload1 = (if truthy msg then AList.update ''text'' msg payload else payload);
          payload2 = (if truthy filename then AList.update ''file'' filename payload1
                      else payload1)
      in case genericPOST e ''/hydra/api/v1/messages'' (PDict payload2) self of
           (Inl f, self1) \<Rightarrow> (Inl f, self1)
         | (Inr (r, resp), self1) \<Rightarrow>
             (let self2 = self1\<lparr>response := resp\<rparr>;
                  (ret, self3) = set_returncode r self2
              in (Inr (ret, response self3), self3)))"

definition create_room :: "env \<Rightarrow> string \<Rightarrow> connection \<Rightarrow> pyval outcome" where
  "create_room e title self =
     (let body = PDict [(''title'', PStr title)]
      in case genericPOST e ''/hydra/api/v1/rooms'' body self of
           (Inl f, self1) \<Rightarrow> (Inl f, self1)
         | (Inr (r, resp), self1) \<Rightarrow>
             (let self2 = self1\<lparr>response := resp\<rparr>
              in if rc_eq r 200 then
                   (let (ret, self3) = set_returncode r self2
                    in (py_getitem (response self3) ''id'', self3))
                 else
                   (let (ret, self3) = set_returncode r self2
                    in (Inr ret, self3))))"

definition add_room_member :: "env \<Rightarrow> pyval \<Rightarrow> pyval \<Rightarrow> connection \<Rightarrow> pyval outcome" where
  "add_room_member e room_id email self =
     (let body = PDict [(''personEmail'', email), (''isModerator'', PStr ''false''),
                        (''roomId'', room_id)]
      in case genericPOST e ''/hydra/api/v1/memberships'' body self of
           (Inl f, self1) \<Rightarrow> (Inl f, self1)
         | (Inr (r, resp), self1) \<Rightarrow>
             (let self2 = self1\<lparr>response := resp\<rparr>
              in if rc_eq r 403 then (Inr (PInt 403), self2)
                 else (let (ret, self3) = set_returncode r self2
                       in (Inr ret, self3))))"

section \<open>The driver\<close>

record params =
  p_room :: string
  p_token :: string
  p_text :: pyval
  p_filename :: pyval
  p_members :: pyval
  p_debug :: pyval

text \<open>How the run ends: \<^verbatim>\<open>module.exit_json(changed=..., content=...)\<close> or
  \<^verbatim>\<open>module.fail_json(msg=...)\<close>. Both leave the process, so the \<^verbatim>\<open>return\<close> after
  them is never reached.\<close>

datatype report = exit_json bool pyval | fail_json pyval

text \<open>Sequencing: an uncaught exception ends the run where it is raised.\<close>

definition and_then :: "'a outcome \<Rightarrow> ('a \<Rightarrow> connection \<Rightarrow> 'b outcome) \<Rightarrow> 'b outcome" where
  "and_then m k = (case m of (Inl f, s) \<Rightarrow> (Inl f, s) | (Inr a, s) \<Rightarrow> k a s)"

definition main :: "env \<Rightarrow> params \<Rightarrow> report outcome" where
  "main e p =
     (let room = p_room p; text = p_text p; filename = p_filename p; members = p_members p;
          spark = Connection (p_debug p) (p_token p)
      in and_then (list_rooms e spark) (\<lambda>_ s1.
         and_then (get_room_id room s1) (\<lambda>found s2.
         and_then (if \<not> truthy found then create_room e room s2 else (Inr found, s2))
           (\<lambda>room_id s3.
         and_then (if truthy members then add_room_member e room_id members s3
                   else (Inr PNone, s3)) (\<lambda>_ s4.
         and_then (if truthy text \<or> truthy filename
                   then and_then (send_message e room_id text filename s4)
                          (\<lambda>_ s. (Inr PNone, s))
                   else (Inr PNone, s4)) (\<lambda>_ s5.
           if code s5 = 0 then (Inr (exit_json (get_changed_flag s5) (response s5)), s5)
           else (Inr (fail_json (response s5)), s5)))))))"

section \<open>Basic facts about the model\<close>

declare str_nat.simps [simp del]

text \<open>The request a POST with a given path and body puts on the wire, and the GET of
  the room listing.\<close>

definition posted :: "connection \<Rightarrow> string \<Rightarrow> pyval \<Rightarrow> request" where
  "posted self path body =
     \<lparr> verb = POST, uri = server self @ path, data = Some body,
       headers = HEADER self, verify = False \<rparr>"

definition listing :: "connection \<Rightarrow> request" where
  "listing self =
     \<lparr> verb = GET, uri = server self @ ''/hydra/api/v1/rooms'', data = None,
       headers = HEADER self, verify = False \<rparr>"

text \<open>
  Concrete surroundings for the examples: a server that answers the n-th request with
  the n-th reply of a script, a few entries of \<^verbatim>\<open>httplib.responses\<close>, and a freshly
  constructed connection.
\<close>

definition scripted :: "reply list \<Rightarrow> request list \<Rightarrow> reply" where
  "scripted rs sent =
     (if length sent - 1 < length rs then rs ! (length sent - 1)
      else ConnectionError ''no more replies'')"

definition some_reasons :: "int \<Rightarrow> string option" where
  "some_reasons n =
     (if n = 200 then Some ''OK''
      else if n = 403 then Some ''Forbidden''
      else if n = 404 then Some ''Not Found''
      else None)"

definition fresh :: connection where
  "fresh = Connection (PBool False) ''tok''"

definition answering :: "reply \<Rightarrow> env" where
  "answering r = \<lparr> net = (\<lambda>sent. r), responses = some_reasons \<rparr>"

definition replaying :: "reply list \<Rightarrow> env" where
  "replaying rs = \<lparr> net = scripted rs, responses = some_reasons \<rparr>"

definition room_only :: params where
  "room_only = \<lparr> p_room = ''foobar'', p_token = ''tok'', p_text = PNone,
                 p_filename = PNone, p_members = PNone, p_debug = PBool False \<rparr>"

definition member_and_text :: params where
  "member_and_text = \<lparr> p_room = ''foobar'', p_token = ''tok'', p_text = PStr ''hello'',
                       p_filename = PNone, p_members = PStr ''joe.user@wwt.com'',
                       p_debug = PBool False \<rparr>"

definition no_rooms :: reply where
  "no_rooms = Response 200 (Some (PDict [(''items'', PList [])]))"

definition three_rooms :: "pyval list" where
  "three_rooms =
     [PDict [(''id'', PStr ''r0''), (''title'', PStr ''lobby'')],
      PDict [(''id'', PStr ''r1''), (''title'', PStr ''my foobar room'')],
      PDict [(''id'', PStr ''r2''), (''title'', PStr ''foobar'')]]"



text \<open>The room exists; the connection is refused when the member is added; the message
  is then accepted.\<close>

definition run_refused :: "report outcome" where
  "run_refused =
     main (replaying [Response 200 (Some (PDict [(''items'', PList three_rooms)])),
                      ConnectionError ''connection refused'',
                      Response 200 (Some (PDict [(''id'', PStr ''msg1'')]))])
          member_and_text"

text \<open>
  A room of the data model: a JSON object with a string \<open>title\<close> and an \<open>id\<close>; its
  title and its id.
\<close>

definition is_room :: "pyval \<Rightarrow> bool" where
  "is_room r =
     (case r of
        PDict kvs \<Rightarrow>
          (case map_of kvs ''title'' of
             Some (PStr t) \<Rightarrow> map_of kvs ''id'' \<noteq> None
           | _ \<Rightarrow> False)
      | _ \<Rightarrow> False)"

fun room_title :: "pyval \<Rightarrow> string" where
  "room_title (PDict kvs) = (case map_of kvs ''title'' of Some (PStr t) \<Rightarrow> t | _ \<Rightarrow> [])"
| "room_title _ = []"

fun room_ident :: "pyval \<Rightarrow> pyval" where
  "room_ident (PDict kvs) = (case map_of kvs ''id'' of Some v \<Rightarrow> v | None \<Rightarrow> PNone)"
| "room_ident _ = PNone"

lemmas run_simps =
  main_def and_then_def Let_def get_changed_flag_def scripted_def replaying_def
  answering_def list_rooms_def get_room_id_def create_room_def add_room_member_def
  send_message_def genericPOST_def set_returncode_def rc_eq_def Connection_def
  fresh_def room_only_def member_and_text_def no_rooms_def three_rooms_def

lemma genericPOST_wire:
  "wire (snd (genericPOST e path body self)) = wire self @ [posted self path body]"
  by (simp add: genericPOST_def posted_def Let_def split: reply.splits option.splits)

lemma genericPOST_code: "code (snd (genericPOST e path body self)) = code self"
  by (simp add: genericPOST_def Let_def split: reply.splits option.splits)

lemma genericPOST_changed: "changed (snd (genericPOST e path body self)) = changed self"
  by (simp add: genericPOST_def Let_def split: reply.splits option.splits)

lemma genericPOST_ConnectionError:
  "net e (wire self @ [posted self path body]) = ConnectionError err \<Longrightarrow>
   genericPOST e path body self =
     (Inr (PyFalse, PExc err), self\<lparr>wire := wire self @ [posted self path body]\<rparr>)"
  by (simp add: genericPOST_def posted_def Let_def)

lemma genericPOST_parsed:
  "net e (wire self @ [posted self path body]) = Response st (Some v) \<Longrightarrow>
   genericPOST e path body self =
     (Inr (Status st, v),
      self\<lparr>wire := wire self @ [posted self path body], response := v\<rparr>)"
  by (simp add: genericPOST_def posted_def Let_def)

lemma genericPOST_unparseable:
  "net e (wire self @ [posted self path body]) = Response st None \<Longrightarrow>
   responses e st = Some reason \<Longrightarrow>
   genericPOST e path body self =
     (Inr (Status st, PStr (''ValueError: '' @ str_int st @ '' '' @ reason)),
      self\<lparr>wire := wire self @ [posted self path body],
           response := PStr (''ValueError: '' @ str_int st @ '' '' @ reason)\<rparr>)"
  by (simp add: genericPOST_def posted_def Let_def)

lemma genericPOST_KeyError:
  "net e (wire self @ [posted self path body]) = Response st None \<Longrightarrow>
   responses e st = None \<Longrightarrow>
   genericPOST e path body self =
     (Inl KeyError, self\<lparr>wire := wire self @ [posted self path body]\<rparr>)"
  by (simp add: genericPOST_def posted_def Let_def)

text \<open>Python's substring test is the contiguous-sublist relation of the library.\<close>

lemma starts_with_prefix: "starts_with t s = prefix t s"
  by (induction t s rule: starts_with.induct) simp_all

lemma str_contains_sublist: "str_contains t s = sublist t s"
  by (induction s) (simp_all add: starts_with_prefix sublist_Cons_right)

section \<open>The error tally and the changed flag\<close>

text \<open>
  C3. When the membership POST comes back with HTTP status 403, \<^verbatim>\<open>add_room_member\<close>
  leaves the error tally \<open>code\<close> and the \<open>changed\<close> flag as they were, whatever the body
  of the response is (also when the body is unparseable and the call ends in the
  KeyError of the reason-phrase lookup).
\<close>

theorem add_room_member_403_is_no_op:
  assumes "net e (wire self @ [posted self ''/hydra/api/v1/memberships''
             (PDict [(''personEmail'', email), (''isModerator'', PStr ''false''),
                     (''roomId'', room_id)])]) = Response 403 content"
  shows "code (snd (add_room_member e room_id email self)) = code self \<and>
         changed (snd (add_room_member e room_id email self)) = changed self"
proof (cases content)
  case (Some v)
  with assms show ?thesis
    by (simp add: add_room_member_def Let_def genericPOST_parsed rc_eq_def)
next
  case None
  note c = this
  show ?thesis
  proof (cases "responses e 403")
    case None
    with assms c show ?thesis
      by (simp add: add_room_member_def Let_def genericPOST_KeyError)
  next
    case (Some reason)
    with assms c show ?thesis
      by (simp add: add_room_member_def Let_def genericPOST_unparseable rc_eq_def)
  qed
qed

text \<open>An instance: a fresh connection, the server answers 403.\<close>

theorem add_room_member_403_is_no_op_witness:
  "net (answering (Response 403 (Some (PDict [(''message'', PStr ''already a member'')]))))
       (wire fresh @ [posted fresh ''/hydra/api/v1/memberships''
          (PDict [(''personEmail'', PStr ''joe.user@wwt.com''),
                  (''isModerator'', PStr ''false''), (''roomId'', PStr ''r1'')])])
     = Response 403 (Some (PDict [(''message'', PStr ''already a member'')])) \<and>
   code (snd (add_room_member
                (answering (Response 403 (Some (PDict [(''message'', PStr ''already a member'')]))))
                (PStr ''r1'') (PStr ''joe.user@wwt.com'') fresh)) = 0 \<and>
   changed (snd (add_room_member
                (answering (Response 403 (Some (PDict [(''message'', PStr ''already a member'')]))))
                (PStr ''r1'') (PStr ''joe.user@wwt.com'') fresh)) = False"
proof -
  let ?e = "answering (Response 403 (Some (PDict [(''message'', PStr ''already a member'')])))"
  have h: "net ?e (wire fresh @ [posted fresh ''/hydra/api/v1/memberships''
          (PDict [(''personEmail'', PStr ''joe.user@wwt.com''),
                  (''isModerator'', PStr ''false''), (''roomId'', PStr ''r1'')])])
     = Response 403 (Some (PDict [(''message'', PStr ''already a member'')]))"
    by (simp add: answering_def)
  have "code fresh = 0" "changed fresh = False" by (simp_all add: fresh_def Connection_def)
  with add_room_member_403_is_no_op [OF h] h show ?thesis by simp
qed

text \<open>
  C9. Whatever the server answers to the room listing (a parsed body, an unparseable
  one, a connection error, or a body whose \<^verbatim>\<open>["items"]\<close> lookup raises), \<^verbatim>\<open>list_rooms\<close>
  and \<^verbatim>\<open>get_room_id\<close> leave the error tally and the changed flag untouched.
\<close>

theorem list_and_find_frame:
  "code (snd (list_rooms e self)) = code self \<and>
   changed (snd (list_rooms e self)) = changed self \<and>
   code (snd (get_room_id title self)) = code self \<and>
   changed (snd (get_room_id title self)) = changed self"
  by (simp add: list_rooms_def get_room_id_def Let_def
           split: reply.splits option.splits sum.splits)





section \<open>Creating a room\<close>



text \<open>
  C10. A 200 answer to the room-creation POST whose body is not JSON makes the session
  store the diagnostic string, and \<^verbatim>\<open>self.response["id"]\<close> on that string raises
  TypeError: no room id is returned. More generally, after a 200 answer \<^verbatim>\<open>create_room\<close>
  returns a value exactly when the body parsed to an object that has the key \<open>id\<close>.
\<close>

theorem create_room_id_extraction:
  assumes "net e (wire self @ [posted self ''/hydra/api/v1/rooms''
             (PDict [(''title'', PStr title)])]) = Response 200 content"
  shows "(content = None \<and> responses e 200 = Some reason \<longrightarrow>
            fst (create_room e title self) = Inl TypeError \<and>
            response (snd (create_room e title self)) =
              PStr (''ValueError: '' @ str_int 200 @ '' '' @ reason)) \<and>
         ((\<exists>v. fst (create_room e title self) = Inr v) \<longleftrightarrow>
            (\<exists>kvs. content = Some (PDict kvs) \<and> ''id'' \<in> fst ` set kvs))"
proof (cases content)
  case (Some v)
  with assms have "fst (create_room e title self) = py_getitem v ''id''"
    by (simp add: create_room_def Let_def genericPOST_parsed rc_eq_def set_returncode_def)
  moreover have "(\<exists>w. py_getitem v ''id'' = Inr w) \<longleftrightarrow>
                 (\<exists>kvs. v = PDict kvs \<and> ''id'' \<in> fst ` set kvs)"
  proof (cases v)
    case (PDict kvs)
    have "(\<exists>w. map_of kvs ''id'' = Some w) \<longleftrightarrow> ''id'' \<in> fst ` set kvs"
      using map_of_eq_None_iff [of kvs "''id''"] by auto
    then show ?thesis using PDict by (auto split: option.splits)
  qed simp_all
  ultimately show ?thesis using Some by simp
next
  case None
  show ?thesis
  proof (cases "responses e 200")
    case None
    with assms \<open>content = None\<close> show ?thesis
      by (simp add: create_room_def Let_def genericPOST_KeyError)
  next
    case (Some r)
    with assms \<open>content = None\<close> show ?thesis
      by (simp add: create_room_def Let_def genericPOST_unparseable rc_eq_def
            set_returncode_def)
  qed
qed

text \<open>An instance: the server answers 200 with a body that is not JSON.\<close>

theorem create_room_id_extraction_witness:
  "net (answering (Response 200 None))
       (wire fresh @ [posted fresh ''/hydra/api/v1/rooms'' (PDict [(''title'', PStr ''foobar'')])])
     = Response 200 None \<and>
   responses (answering (Response 200 None)) 200 = Some ''OK'' \<and>
   fst (create_room (answering (Response 200 None)) ''foobar'' fresh) = Inl TypeError \<and>
   response (snd (create_room (answering (Response 200 None)) ''foobar'' fresh))
     = PStr ''ValueError: 200 OK''"
proof -
  let ?e = "answering (Response 200 None)"
  have a: "net ?e (wire fresh @ [posted fresh ''/hydra/api/v1/rooms''
             (PDict [(''title'', PStr ''foobar'')])]) = Response 200 None"
    by (simp add: answering_def)
  have r: "responses ?e 200 = Some ''OK''"
    by (simp add: answering_def some_reasons_def)
  have d: "str_int 200 = ''200''" by code_simp
  from create_room_id_extraction [OF a, of "''OK''"] a r d show ?thesis by simp
qed

section \<open>Finding a room by title\<close>

text \<open>A listing whose body parses and has \<open>items\<close> stores them as the rooms.\<close>

lemma list_rooms_stores_items:
  assumes "net e (wire self @ [listing self]) = Response st (Some body)"
      and "py_getitem body ''items'' = Inr items"
  shows "list_rooms e self =
           (Inr (Status st, items), self\<lparr>wire := wire self @ [listing self], rooms := items\<rparr>)"
  using assms by (simp add: list_rooms_def listing_def Let_def)

text \<open>One turn of the loop on a room of the data model.\<close>

lemma room_step:
  assumes "is_room r"
  shows "get_room_id_loop T (r # rest) =
           (if sublist T (room_title r) then Inr (room_ident r) else get_room_id_loop T rest)"
  using assms
  by (auto simp: is_room_def str_contains_sublist split: pyval.splits option.splits)

lemma loop_no_match:
  "\<forall>r\<in>set rs. is_room r \<and> \<not> sublist T (room_title r) \<Longrightarrow> get_room_id_loop T rs = Inr PNone"
proof (induction rs)
  case Nil
  show ?case by simp
next
  case (Cons r rs)
  then have "get_room_id_loop T (r # rs) = get_room_id_loop T rs"
    by (simp add: room_step del: get_room_id_loop.simps(2))
  with Cons show ?case by simp
qed

lemma loop_first_match:
  assumes "\<forall>r\<in>set rs. is_room r" "i < length rs" "sublist T (room_title (rs ! i))"
          "\<forall>j<i. \<not> sublist T (room_title (rs ! j))"
  shows "get_room_id_loop T rs = Inr (room_ident (rs ! i))"
  using assms
proof (induction rs arbitrary: i)
  case Nil
  then show ?case by simp
next
  case (Cons r rs)
  show ?case
  proof (cases i)
    case 0
    with Cons.prems show ?thesis
      by (simp add: room_step del: get_room_id_loop.simps(2))
  next
    case (Suc k)
    with Cons.prems have "\<not> sublist T (room_title r)" by auto
    moreover from Cons.prems Suc have "get_room_id_loop T rs = Inr (room_ident (rs ! k))"
      by (intro Cons.IH) auto
    ultimately show ?thesis using Cons.prems Suc
      by (simp add: room_step del: get_room_id_loop.simps(2))
  qed
qed

text \<open>
  C5. On a fetched collection of rooms, \<^verbatim>\<open>get_room_id\<close> returns the id of the first room,
  in the order of the collection, whose title contains the given title as a substring,
  and \<^verbatim>\<open>None\<close> when no title contains it; it returns \<^verbatim>\<open>None\<close> when no collection is
  stored, which is the case after a listing that met a connection error or an
  unparseable body.
\<close>

theorem get_room_id_first_match:
  "(\<forall>rs. rooms self = PList rs \<and> (\<forall>r\<in>set rs. is_room r) \<longrightarrow>
      (\<forall>i<length rs.
          sublist T (room_title (rs ! i)) \<and> (\<forall>j<i. \<not> sublist T (room_title (rs ! j))) \<longrightarrow>
          get_room_id T self = (Inr (room_ident (rs ! i)), self)) \<and>
      ((\<forall>r\<in>set rs. \<not> sublist T (room_title r)) \<longrightarrow>
          get_room_id T self = (Inr PNone, self))) \<and>
   (rooms self = PNone \<longrightarrow> get_room_id T self = (Inr PNone, self)) \<and>
   ((\<exists>err. net e [listing (Connection dbg tok)] = ConnectionError err) \<or>
    (\<exists>st. net e [listing (Connection dbg tok)] = Response st None) \<longrightarrow>
      fst (get_room_id T (snd (list_rooms e (Connection dbg tok)))) = Inr PNone)"
proof (intro conjI allI impI)
  fix rs i
  assume a: "rooms self = PList rs \<and> (\<forall>r\<in>set rs. is_room r)" and i: "i < length rs"
     and m: "sublist T (room_title (rs ! i)) \<and> (\<forall>j<i. \<not> sublist T (room_title (rs ! j)))"
  from i have "rs \<noteq> []" by auto
  moreover have "get_room_id_loop T rs = Inr (room_ident (rs ! i))"
    using a i m by (intro loop_first_match) auto
  ultimately show "get_room_id T self = (Inr (room_ident (rs ! i)), self)"
    using a by (simp add: get_room_id_def)
next
  fix rs
  assume a: "rooms self = PList rs \<and> (\<forall>r\<in>set rs. is_room r)"
     and n: "\<forall>r\<in>set rs. \<not> sublist T (room_title r)"
  then have "get_room_id_loop T rs = Inr PNone" by (intro loop_no_match) auto
  with a show "get_room_id T self = (Inr PNone, self)" by (simp add: get_room_id_def)
next
  assume "rooms self = PNone"
  then show "get_room_id T self = (Inr PNone, self)" by (simp add: get_room_id_def)
next
  assume "(\<exists>err. net e [listing (Connection dbg tok)] = ConnectionError err) \<or>
          (\<exists>st. net e [listing (Connection dbg tok)] = Response st None)"
  then have "rooms (snd (list_rooms e (Connection dbg tok))) = PNone"
    by (auto simp: list_rooms_def listing_def Let_def Connection_def)
  then show "fst (get_room_id T (snd (list_rooms e (Connection dbg tok)))) = Inr PNone"
    by (simp add: get_room_id_def)
qed

text \<open>Instances on a collection of three rooms, and on a connection without rooms.\<close>

theorem get_room_id_first_match_witness:
  "rooms (fresh\<lparr>rooms := PList three_rooms\<rparr>) = PList three_rooms \<and>
   list_all is_room three_rooms \<and>
   sublist ''foobar'' (room_title (three_rooms ! 1)) \<and>
   \<not> sublist ''foobar'' (room_title (three_rooms ! 0)) \<and>
   fst (get_room_id ''foobar'' (fresh\<lparr>rooms := PList three_rooms\<rparr>)) = Inr (PStr ''r1'') \<and>
   list_all (\<lambda>r. \<not> sublist ''kitchen'' (room_title r)) three_rooms \<and>
   fst (get_room_id ''kitchen'' (fresh\<lparr>rooms := PList three_rooms\<rparr>)) = Inr PNone \<and>
   fst (get_room_id ''foobar'' fresh) = Inr PNone \<and>
   fst (get_room_id ''foobar''
         (snd (list_rooms (answering (ConnectionError ''connection refused''))
                 (Connection (PBool False) ''tok'')))) = Inr PNone"
proof -
  let ?s = "fresh\<lparr>rooms := PList three_rooms\<rparr>"
  let ?e = "answering (ConnectionError ''connection refused'')"
  have r: "rooms ?s = PList three_rooms" by simp
  have wf: "\<forall>r\<in>set three_rooms. is_room r"
    by (simp add: three_rooms_def is_room_def)
  have m1: "sublist ''foobar'' (room_title (three_rooms ! 1))"
    by (simp add: three_rooms_def str_contains_sublist [symmetric])
  have m0: "\<not> sublist ''foobar'' (room_title (three_rooms ! 0))"
    by (simp add: three_rooms_def str_contains_sublist [symmetric])
  have m: "\<forall>j<1. \<not> sublist ''foobar'' (room_title (three_rooms ! j))"
    using m0 by simp
  have n: "\<forall>r\<in>set three_rooms. \<not> sublist ''kitchen'' (room_title r)"
    by (simp add: three_rooms_def str_contains_sublist [symmetric])
  have len: "1 < length three_rooms" by (simp add: three_rooms_def)
  have id1: "room_ident (three_rooms ! 1) = PStr ''r1''" by (simp add: three_rooms_def)
  have none: "rooms fresh = PNone" by (simp add: fresh_def Connection_def)
  have ce: "net ?e [listing (Connection (PBool False) ''tok'')]
              = ConnectionError ''connection refused''"
    by (simp add: answering_def)
  note t1 = get_room_id_first_match [of ?s "''foobar''" ?e "PBool False" "''tok''"]
  note t2 = get_room_id_first_match [of ?s "''kitchen''" ?e "PBool False" "''tok''"]
  note t3 = get_room_id_first_match [of fresh "''foobar''" ?e "PBool False" "''tok''"]
  have a: "get_room_id ''foobar'' ?s = (Inr (room_ident (three_rooms ! 1)), ?s)"
    using t1 r wf m1 m len by blast
  have b: "get_room_id ''kitchen'' ?s = (Inr PNone, ?s)"
    using t2 r wf n by blast
  have c: "get_room_id ''foobar'' fresh = (Inr PNone, fresh)"
    using t3 none by blast
  have d: "fst (get_room_id ''foobar'' (snd (list_rooms ?e (Connection (PBool False) ''tok''))))
             = Inr PNone"
    using t3 ce by blast
  from a b c d r wf m1 m0 n id1 show ?thesis by (simp add: list_all_iff)
qed

section \<open>The posted bodies\<close>

text \<open>
  C6 (as amended). \<^verbatim>\<open>send_message\<close> posts to the messages endpoint a payload that has
  the key \<open>roomId\<close>, has the key \<open>text\<close> exactly when the text is a true value in
  Python's sense (so neither \<^verbatim>\<open>None\<close> nor the empty string), and has the key \<open>file\<close>
  exactly when the file reference is a true value; a key that is present carries the
  value given.
\<close>

theorem send_message_payload:
  "\<exists>payload.
     wire (snd (send_message e room_id msg filename self)) =
       wire self @ [posted self ''/hydra/api/v1/messages'' (PDict payload)] \<and>
     payload = [(''roomId'', room_id)] @ (if truthy msg then [(''text'', msg)] else [])
                 @ (if truthy filename then [(''file'', filename)] else []) \<and>
     ''roomId'' \<in> fst ` set payload \<and>
     (''text'' \<in> fst ` set payload \<longleftrightarrow> truthy msg) \<and>
     (''file'' \<in> fst ` set payload \<longleftrightarrow> truthy filename)"
proof -
  let ?p = "[(''roomId'', room_id)] @ (if truthy msg then [(''text'', msg)] else [])
                 @ (if truthy filename then [(''file'', filename)] else [])"
  have "wire (snd (send_message e room_id msg filename self)) =
        wire (snd (genericPOST e ''/hydra/api/v1/messages'' (PDict ?p) self))"
    by (simp add: send_message_def Let_def set_returncode_def
             split: prod.splits sum.splits)
  then have "wire (snd (send_message e room_id msg filename self)) =
       wire self @ [posted self ''/hydra/api/v1/messages'' (PDict ?p)]"
    by (simp only: genericPOST_wire)
  moreover have "''roomId'' \<in> fst ` set ?p" by simp
  moreover have "''text'' \<in> fst ` set ?p \<longleftrightarrow> truthy msg"
    by (cases "truthy msg"; cases "truthy filename"; simp)
  moreover have "''file'' \<in> fst ` set ?p \<longleftrightarrow> truthy filename"
    by (cases "truthy msg"; cases "truthy filename"; simp)
  ultimately show ?thesis by blast
qed

text \<open>An instance: a text and no file.\<close>

theorem send_message_payload_witness:
  "wire (snd (send_message (answering (Response 200 (Some (PDict []))))
                          (PStr ''r1'') (PStr ''hello'') PNone fresh))
     = wire fresh @ [posted fresh ''/hydra/api/v1/messages''
                       (PDict [(''roomId'', PStr ''r1''), (''text'', PStr ''hello'')])]"
  using send_message_payload [of "answering (Response 200 (Some (PDict [])))"
          "PStr ''r1''" "PStr ''hello''" PNone fresh]
  by auto

text \<open>
  C6 as stated fails: a text that is supplied as the empty string is left out of the
  payload like an absent one. Here the text is \<open>""\<close> and a file reference is given.
\<close>

theorem send_message_empty_text_counterexample:
  "PStr '''' \<noteq> PNone \<and>
   map data (wire (snd (send_message (answering (Response 200 (Some (PDict []))))
                          (PStr ''r1'') (PStr '''') (PStr ''http://example.com/f.png'') fresh)))
     = [Some (PDict [(''roomId'', PStr ''r1''), (''file'', PStr ''http://example.com/f.png'')])]"
  by (simp add: run_simps)

text \<open>
  C7 (as amended). \<^verbatim>\<open>add_room_member\<close> posts to the memberships endpoint the body
  \<open>{personEmail: email, isModerator: "false", roomId: room_id}\<close>, where the value of
  \<open>isModerator\<close> is the string \<open>"false"\<close>.
\<close>

theorem add_room_member_posted_body:
  "wire (snd (add_room_member e room_id email self)) =
     wire self @ [posted self ''/hydra/api/v1/memberships''
        (PDict [(''personEmail'', email), (''isModerator'', PStr ''false''),
                (''roomId'', room_id)])]"
proof -
  let ?b = "PDict [(''personEmail'', email), (''isModerator'', PStr ''false''), (''roomId'', room_id)]"
  have "wire (snd (add_room_member e room_id email self)) =
        wire (snd (genericPOST e ''/hydra/api/v1/memberships'' ?b self))"
    by (simp add: add_room_member_def Let_def set_returncode_def
             split: prod.splits sum.splits)
  then show ?thesis by (simp add: genericPOST_wire)
qed

text \<open>
  C7 as stated fails: the posted value of \<open>isModerator\<close> is the string \<open>"false"\<close>, not
  the boolean.
\<close>

theorem add_room_member_isModerator_counterexample:
  "map data (wire (snd (add_room_member (answering (Response 200 (Some (PDict []))))
                          (PStr ''r1'') (PStr ''joe.user@wwt.com'') fresh)))
     = [Some (PDict [(''personEmail'', PStr ''joe.user@wwt.com''),
                     (''isModerator'', PStr ''false''), (''roomId'', PStr ''r1'')])] \<and>
   PStr ''false'' \<noteq> PBool False"
  by (simp add: run_simps)

section \<open>Transport failures\<close>

text \<open>
  C8 (as amended). A \<^verbatim>\<open>requests.ConnectionError\<close> never leaves the session as an
  exception. \<^verbatim>\<open>genericPOST\<close> returns \<^verbatim>\<open>False\<close> paired with the error object;
  \<^verbatim>\<open>list_rooms\<close> returns the status 404 paired with \<^verbatim>\<open>None\<close> and keeps the rooms it had.
\<close>

theorem transport_failure_results:
  "(net e (wire self @ [posted self path body]) = ConnectionError err \<longrightarrow>
      fst (genericPOST e path body self) = Inr (PyFalse, PExc err)) \<and>
   (net e (wire self @ [listing self]) = ConnectionError err \<longrightarrow>
      fst (list_rooms e self) = Inr (Status 404, PNone) \<and>
      rooms (snd (list_rooms e self)) = rooms self)"
  by (simp add: genericPOST_ConnectionError list_rooms_def listing_def Let_def)

text \<open>An instance: every connection is refused.\<close>

theorem transport_failure_results_witness:
  "net (answering (ConnectionError ''connection refused''))
       (wire fresh @ [posted fresh ''/hydra/api/v1/messages'' (PDict [(''roomId'', PStr ''r1'')])])
     = ConnectionError ''connection refused'' \<and>
   fst (genericPOST (answering (ConnectionError ''connection refused''))
          ''/hydra/api/v1/messages'' (PDict [(''roomId'', PStr ''r1'')]) fresh)
     = Inr (PyFalse, PExc ''connection refused'') \<and>
   net (answering (ConnectionError ''connection refused'')) (wire fresh @ [listing fresh])
     = ConnectionError ''connection refused'' \<and>
   fst (list_rooms (answering (ConnectionError ''connection refused'')) fresh)
     = Inr (Status 404, PNone) \<and>
   rooms (snd (list_rooms (answering (ConnectionError ''connection refused'')) fresh)) = PNone"
proof -
  let ?e = "answering (ConnectionError ''connection refused'')"
  have a: "net ?e (wire fresh @ [posted fresh ''/hydra/api/v1/messages''
             (PDict [(''roomId'', PStr ''r1'')])]) = ConnectionError ''connection refused''"
    by (simp add: answering_def)
  have b: "net ?e (wire fresh @ [listing fresh]) = ConnectionError ''connection refused''"
    by (simp add: answering_def)
  have f: "rooms fresh = PNone" by (simp add: fresh_def Connection_def)
  from transport_failure_results [of ?e fresh "''/hydra/api/v1/messages''"
         "PDict [(''roomId'', PStr ''r1'')]" "''connection refused''"] a b f
  show ?thesis by simp
qed

text \<open>
  C8 as stated fails for the GET: after a refused connection \<^verbatim>\<open>list_rooms\<close> returns
  exactly what it returns after a genuine HTTP 404 with an unparseable body, and the body
  it returns is \<^verbatim>\<open>None\<close>, not the error.
\<close>

theorem transport_failure_counterexample:
  "fst (list_rooms (answering (ConnectionError ''connection refused'')) fresh)
     = Inr (Status 404, PNone) \<and>
   fst (list_rooms (answering (Response 404 None)) fresh) = Inr (Status 404, PNone) \<and>
   PNone \<noteq> PExc ''connection refused''"
  by (simp add: list_rooms_def answering_def Let_def)

text \<open>
  After a connection error on the membership POST the tally is what it was: the status
  that \<^verbatim>\<open>set_returncode\<close> adds is \<^verbatim>\<open>False\<close>, which counts as 0.
\<close>

lemma add_room_member_ConnectionError:
  assumes "net e (wire self @ [posted self ''/hydra/api/v1/memberships''
             (PDict [(''personEmail'', email), (''isModerator'', PStr ''false''),
                     (''roomId'', room_id)])]) = ConnectionError err"
  shows "fst (add_room_member e room_id email self) = Inr PNone"
    and "code (snd (add_room_member e room_id email self)) = code self"
    and "changed (snd (add_room_member e room_id email self)) = changed self"
    and "response (snd (add_room_member e room_id email self)) = PExc err"
  using assms
  by (simp_all add: add_room_member_def Let_def genericPOST_ConnectionError rc_eq_def
        set_returncode_def)

text \<open>
  C1 (evaluation of the code). The room exists, the POST that adds the member meets a
  refused connection, the message is then posted and accepted: the run sends the
  message, and it ends with the tally at zero and a success report.
\<close>

theorem refused_member_post_leaves_tally_zero:
  "fst run_refused = Inr (exit_json True (PDict [(''id'', PStr ''msg1'')])) \<and>
   code (snd run_refused) = 0 \<and>
   map data (wire (snd run_refused)) =
     [None,
      Some (PDict [(''personEmail'', PStr ''joe.user@wwt.com''),
                   (''isModerator'', PStr ''false''), (''roomId'', PStr ''r1'')]),
      Some (PDict [(''roomId'', PStr ''r1''), (''text'', PStr ''hello'')])]"
  by (simp add: run_refused_def run_simps)

end
